theory Spec2Isabelle
  imports Main
begin

section \<open>The data-access layer: class DataBase\<close>

text \<open>
  The class \<^verbatim>\<open>DataBase\<close> keeps a client handle and a database handle, both nullable,
  and talks to a document store through the \<^verbatim>\<open>mongodb\<close> driver. The driver and the
  module \<^verbatim>\<open>./mongodb\<close> (which exports \<^verbatim>\<open>clientPromise\<close>) are imported, not defined, by
  the class: they are a parameter of every method below. Each asynchronous method is
  modelled as one atomic step from a state to a result and a state; a thrown error (a
  rejected promise) is the left summand of the result. Console output is left out.
\<close>

subsection \<open>Values of the driver\<close>

text \<open>The two properties of a caught error that the code inspects may hold anything.\<close>

datatype jsval = Undefined | Num int | Str string

datatype error = Error (message: string) (code: jsval) (codeName: jsval)

type_synonym client = nat

text \<open>
  Handles are built without any I/O: \<^verbatim>\<open>db.collection(name)\<close> names a collection of a
  database, \<^verbatim>\<open>client.db(name)\<close> a database of a client. Which database that is, and
  whether the name is accepted at all, is the driver's decision.
\<close>

datatype Db = Db (dbClient: client) (databaseName: string)

datatype Collection = Collection (collectionDb: Db) (collectionName: string)

text \<open>An object literal is a list of keys and values, in the order written.\<close>

type_synonym 'v Document = "(string \<times> 'v) list"

type_synonym 'v Filter = "(string \<times> 'v) list"

type_synonym IndexSpecification = "(string \<times> int) list"

datatype InsertOneResult = InsertOneResult (insertAcknowledged: bool) (insertedId: nat)

datatype DeleteResult = DeleteResult (deleteAcknowledged: bool) (deletedCount: nat)

text \<open>
  The driver, over a store of any type \<open>'st\<close>. \<open>clientPromise\<close> is one promise, created
  when the module is loaded: it settles once, so awaiting it gives the same outcome every
  time. \<open>client_db\<close> is \<^verbatim>\<open>client.db(name)\<close>: it may throw. The other operations read and
  change the store and may fail.
\<close>

record ('st, 'v) driver =
  clientPromise :: "error + client"
  client_db :: "client \<Rightarrow> string \<Rightarrow> error + Db"
  close :: "client \<Rightarrow> 'st \<Rightarrow> (error + unit) \<times> 'st"
  createIndex :: "Collection \<Rightarrow> IndexSpecification \<Rightarrow> bool \<Rightarrow> 'st \<Rightarrow> (error + string) \<times> 'st"
  findOne :: "Collection \<Rightarrow> 'v Filter \<Rightarrow> 'st \<Rightarrow> (error + 'v Document option) \<times> 'st"
  insertOne :: "Collection \<Rightarrow> 'v Document \<Rightarrow> 'st \<Rightarrow> (error + InsertOneResult) \<times> 'st"
  deleteMany :: "Collection \<Rightarrow> 'v Filter \<Rightarrow> 'st \<Rightarrow> (error + DeleteResult) \<times> 'st"

text \<open>Every request that reaches the driver is recorded, in the order issued.\<close>

datatype 'v call =
    AwaitClientPromise
  | Close client
  | CreateIndex Collection IndexSpecification bool
  | FindOne Collection "'v Filter"
  | InsertOne Collection "'v Document"
  | DeleteMany Collection "'v Filter"

subsection \<open>The object and the state it runs in\<close>

record DataBase =
  dbName :: string
  client :: "client option"
  db :: "Db option"

record ('st, 'v) state = DataBase +
  store :: 'st
  calls :: "'v call list"

text \<open>The private constructor: both handles start out null.\<close>

definition new_DataBase :: "string \<Rightarrow> DataBase" where
  "new_DataBase name = \<lparr>dbName = name, client = None, db = None\<rparr>"

definition instance_state :: "DataBase \<Rightarrow> 'st \<Rightarrow> ('st, 'v) state" where
  "instance_state obj st =
     \<lparr>dbName = dbName obj, client = client obj, db = db obj, store = st, calls = []\<rparr>"

text \<open>
  The static field \<^verbatim>\<open>DataBase.instance\<close> (here \<open>instance_field\<close>) holds a reference or is
  undefined. Objects live at addresses, so that two references can be compared.
\<close>

record process =
  objects :: "DataBase list"
  instance_field :: "nat option"

definition getInstance :: "string \<Rightarrow> process \<Rightarrow> nat \<times> process" where
  "getInstance name p =
     (case instance_field p of
        None \<Rightarrow>
          (let a = length (objects p)
           in (a, p\<lparr>objects := objects p @ [new_DataBase name], instance_field := Some a\<rparr>))
      | Some a \<Rightarrow> (a, p))"

subsection \<open>Requests to the driver\<close>

definition await_clientPromise ::
  "('st, 'v) driver \<Rightarrow> ('st, 'v) state \<Rightarrow> (error + client) \<times> ('st, 'v) state" where
  "await_clientPromise drv s = (clientPromise drv, s\<lparr>calls := calls s @ [AwaitClientPromise]\<rparr>)"

definition client_close ::
  "('st, 'v) driver \<Rightarrow> client \<Rightarrow> ('st, 'v) state \<Rightarrow> (error + unit) \<times> ('st, 'v) state" where
  "client_close drv c s =
     (case close drv c (store s) of
        (r, st) \<Rightarrow> (r, s\<lparr>store := st, calls := calls s @ [Close c]\<rparr>))"

definition collection_createIndex ::
  "('st, 'v) driver \<Rightarrow> Collection \<Rightarrow> IndexSpecification \<Rightarrow> bool \<Rightarrow> ('st, 'v) state
     \<Rightarrow> (error + string) \<times> ('st, 'v) state" where
  "collection_createIndex drv c spec uniq s =
     (case createIndex drv c spec uniq (store s) of
        (r, st) \<Rightarrow> (r, s\<lparr>store := st, calls := calls s @ [CreateIndex c spec uniq]\<rparr>))"

definition collection_findOne ::
  "('st, 'v) driver \<Rightarrow> Collection \<Rightarrow> 'v Filter \<Rightarrow> ('st, 'v) state
     \<Rightarrow> (error + 'v Document option) \<times> ('st, 'v) state" where
  "collection_findOne drv c q s =
     (case findOne drv c q (store s) of
        (r, st) \<Rightarrow> (r, s\<lparr>store := st, calls := calls s @ [FindOne c q]\<rparr>))"

definition collection_insertOne ::
  "('st, 'v) driver \<Rightarrow> Collection \<Rightarrow> 'v Document \<Rightarrow> ('st, 'v) state
     \<Rightarrow> (error + InsertOneResult) \<times> ('st, 'v) state" where
  "collection_insertOne drv c d s =
     (case insertOne drv c d (store s) of
        (r, st) \<Rightarrow> (r, s\<lparr>store := st, calls := calls s @ [InsertOne c d]\<rparr>))"

definition collection_deleteMany ::
  "('st, 'v) driver \<Rightarrow> Collection \<Rightarrow> 'v Filter \<Rightarrow> ('st, 'v) state
     \<Rightarrow> (error + DeleteResult) \<times> ('st, 'v) state" where
  "collection_deleteMany drv c q s =
     (case deleteMany drv c q (store s) of
        (r, st) \<Rightarrow> (r, s\<lparr>store := st, calls := calls s @ [DeleteMany c q]\<rparr>))"

subsection \<open>The methods\<close>

text \<open>
  \<^verbatim>\<open>connectDb\<close> assigns the client as soon as the promise has given it, and the database
  handle after that: when \<^verbatim>\<open>client.db\<close> throws, the client stays assigned.
\<close>

definition connectDb ::
  "('st, 'v) driver \<Rightarrow> ('st, 'v) state \<Rightarrow> (error + unit) \<times> ('st, 'v) state" where
  "connectDb drv s =
     (if client s \<noteq> None \<and> db s \<noteq> None then (Inr (), s)
      else
        (case await_clientPromise drv s of
           (Inl e, s1) \<Rightarrow> (Inl e, s1)
         | (Inr c, s1) \<Rightarrow>
             (case client_db drv c (dbName s1) of
                Inl e \<Rightarrow> (Inl e, s1\<lparr>client := Some c\<rparr>)
              | Inr d \<Rightarrow> (Inr (), s1\<lparr>client := Some c, db := Some d\<rparr>))))"

definition disconnectDb ::
  "('st, 'v) driver \<Rightarrow> ('st, 'v) state \<Rightarrow> (error + unit) \<times> ('st, 'v) state" where
  "disconnectDb drv s =
     (case client s of
        None \<Rightarrow> (Inr (), s)
      | Some c \<Rightarrow>
          (case client_close drv c s of
             (Inl e, s1) \<Rightarrow> (Inl e, s1)
           | (Inr u, s1) \<Rightarrow> (Inr (), s1\<lparr>client := None, db := None\<rparr>)))"

definition notInitialized :: error where
  "notInitialized = Error ''Database not initialized. Call initDb() first.'' Undefined Undefined"

definition getCollection ::
  "string \<Rightarrow> ('st, 'v) state \<Rightarrow> (error + Collection) \<times> ('st, 'v) state" where
  "getCollection collName s =
     (case db s of
        None \<Rightarrow> (Inl notInitialized, s)
      | Some d \<Rightarrow> (Inr (Collection d collName), s))"

definition buildQuery :: "string \<Rightarrow> 'v \<Rightarrow> 'v Filter" where
  "buildQuery field val = [(field, val)]"

text \<open>The test of the catch block in \<^verbatim>\<open>createUniqueIndex\<close>.\<close>

definition indexAlreadyExists :: "error \<Rightarrow> bool" where
  "indexAlreadyExists e \<longleftrightarrow> code e = Num 85 \<or> codeName e = Str ''IndexOptionsConflict''"

definition createUniqueIndex_catch ::
  "error \<Rightarrow> ('st, 'v) state \<Rightarrow> (error + unit) \<times> ('st, 'v) state" where
  "createUniqueIndex_catch e s = (if indexAlreadyExists e then (Inr (), s) else (Inl e, s))"

definition createUniqueIndex ::
  "('st, 'v) driver \<Rightarrow> string \<Rightarrow> string \<Rightarrow> ('st, 'v) state \<Rightarrow> (error + unit) \<times> ('st, 'v) state" where
  "createUniqueIndex drv fieldName collName s =
     (case getCollection collName s of
        (Inl e, s1) \<Rightarrow> createUniqueIndex_catch e s1
      | (Inr c, s1) \<Rightarrow>
          (case collection_createIndex drv c [(fieldName, 1)] True s1 of
             (Inl e, s2) \<Rightarrow> createUniqueIndex_catch e s2
           | (Inr nm, s2) \<Rightarrow> (Inr (), s2)))"

text \<open>
  \<^verbatim>\<open>Promise.all\<close> over the mapped array. Every call is started, in the order of the
  array, whatever the others do, and the store is taken to handle the requests in the
  order in which they were issued: \<open>settle_all\<close> gives what each call comes to. The
  promises settle in an order of their own, which is a parameter: \<open>order\<close> lists positions
  of the array, the first to settle first; a position it leaves out settles after those
  it lists. The result is the list of values when no call fails, and otherwise the error
  of the failed call that settles first. The state is the one in which every request has
  been answered: the requests still in flight when the result is an error are answered all
  the same.
\<close>

fun settle_all :: "('s \<Rightarrow> (error + 'a) \<times> 's) list \<Rightarrow> 's \<Rightarrow> (error + 'a) list \<times> 's" where
  "settle_all [] s = ([], s)"
| "settle_all (f # fs) s =
     (case f s of (r, s1) \<Rightarrow> (case settle_all fs s1 of (rs, s2) \<Rightarrow> (r # rs, s2)))"

definition settle_order :: "nat list \<Rightarrow> nat \<Rightarrow> nat list" where
  "settle_order order n =
     filter (\<lambda>i. i < n) (remdups order) @ filter (\<lambda>i. i \<notin> set order) [0..<n]"

definition promise_all ::
  "nat list \<Rightarrow> ('s \<Rightarrow> (error + 'a) \<times> 's) list \<Rightarrow> 's \<Rightarrow> (error + 'a list) \<times> 's" where
  "promise_all order fs s =
     (case settle_all fs s of
        (rs, s1) \<Rightarrow>
          ((case find isl (map (\<lambda>i. rs ! i) (settle_order order (length rs))) of
              Some (Inl e) \<Rightarrow> Inl e
            | _ \<Rightarrow> Inr (map projr rs)),
           s1))"

definition initDb ::
  "('st, 'v) driver \<Rightarrow> nat list \<Rightarrow> string list \<Rightarrow> string \<Rightarrow> ('st, 'v) state
     \<Rightarrow> (error + Db option) \<times> ('st, 'v) state" where
  "initDb drv order indexes collName s =
     (if db s = None then
        (case connectDb drv s of
           (Inl e, s1) \<Rightarrow> (Inl e, s1)
         | (Inr u, s1) \<Rightarrow>
             (case promise_all order (map (\<lambda>field. createUniqueIndex drv field collName) indexes) s1 of
                (Inl e, s2) \<Rightarrow> (Inl e, s2)
              | (Inr us, s2) \<Rightarrow> (Inr (db s2), s2)))
      else (Inr (db s), s))"

text \<open>The \<^verbatim>\<open>for\<close> loop of \<^verbatim>\<open>initCollection\<close>, from index \<open>i\<close> on.\<close>

function initCollection_loop ::
  "('st, 'v) driver \<Rightarrow> string list \<Rightarrow> string \<Rightarrow> nat \<Rightarrow> ('st, 'v) state
     \<Rightarrow> (error + unit) \<times> ('st, 'v) state" where
  "initCollection_loop drv indexes collName i s =
     (if i < length indexes then
        (case createUniqueIndex drv (indexes ! i) collName s of
           (Inl e, s1) \<Rightarrow> (Inl e, s1)
         | (Inr u, s1) \<Rightarrow> initCollection_loop drv indexes collName (i + 1) s1)
      else (Inr (), s))"
  by pat_completeness auto
termination
  by (relation "measure (\<lambda>(drv, indexes, collName, i, s). length indexes - i)") auto

declare initCollection_loop.simps [simp del]

definition initCollection ::
  "('st, 'v) driver \<Rightarrow> string list \<Rightarrow> string \<Rightarrow> ('st, 'v) state
     \<Rightarrow> (error + Db option) \<times> ('st, 'v) state" where
  "initCollection drv indexes collName s =
     (case (if db s = None then connectDb drv s else (Inr (), s)) of
        (Inl e, s1) \<Rightarrow> (Inl e, s1)
      | (Inr u, s1) \<Rightarrow>
          (case initCollection_loop drv indexes collName 0 s1 of
             (Inl e, s2) \<Rightarrow> (Inl e, s2)
           | (Inr u', s2) \<Rightarrow> (Inr (db s2), s2)))"

definition documentExists ::
  "('st, 'v) driver \<Rightarrow> string \<Rightarrow> 'v \<Rightarrow> string \<Rightarrow> ('st, 'v) state
     \<Rightarrow> (error + bool) \<times> ('st, 'v) state" where
  "documentExists drv field val collName s =
     (case (if db s = None then connectDb drv s else (Inr (), s)) of
        (Inl e, s1) \<Rightarrow> (Inl e, s1)
      | (Inr u, s1) \<Rightarrow>
          (case getCollection collName s1 of
             (Inl e, s2) \<Rightarrow> (Inl e, s2)
           | (Inr c, s2) \<Rightarrow>
               (case collection_findOne drv c (buildQuery field val) s2 of
                  (Inl e, s3) \<Rightarrow> (Inl e, s3)
                | (Inr document, s3) \<Rightarrow> (Inr (document \<noteq> None), s3))))"

definition addDocument ::
  "('st, 'v) driver \<Rightarrow> string \<Rightarrow> 'v Document \<Rightarrow> ('st, 'v) state
     \<Rightarrow> (error + InsertOneResult) \<times> ('st, 'v) state" where
  "addDocument drv collName document s =
     (case (if db s = None then connectDb drv s else (Inr (), s)) of
        (Inl e, s1) \<Rightarrow> (Inl e, s1)
      | (Inr u, s1) \<Rightarrow>
          (case getCollection collName s1 of
             (Inl e, s2) \<Rightarrow> (Inl e, s2)
           | (Inr c, s2) \<Rightarrow> collection_insertOne drv c document s2))"

definition removeAllDocuments ::
  "('st, 'v) driver \<Rightarrow> string \<Rightarrow> ('st, 'v) state \<Rightarrow> (error + DeleteResult) \<times> ('st, 'v) state" where
  "removeAllDocuments drv collName s =
     (case (if db s = None then connectDb drv s else (Inr (), s)) of
        (Inl e, s1) \<Rightarrow> (Inl e, s1)
      | (Inr u, s1) \<Rightarrow>
          (case getCollection collName s1 of
             (Inl e, s2) \<Rightarrow> (Inl e, s2)
           | (Inr c, s2) \<Rightarrow> collection_deleteMany drv c [] s2))"

subsection \<open>The states a DataBase object can be in\<close>

text \<open>
  An object starts as the constructor leaves it and changes only through its own
  methods, the private ones included.
\<close>

inductive reachable :: "('st, 'v) driver \<Rightarrow> string \<Rightarrow> ('st, 'v) state \<Rightarrow> bool"
  for drv :: "('st, 'v) driver" and name :: string where
  r_new: "reachable drv name (instance_state (new_DataBase name) st)"
| r_connectDb: "reachable drv name s \<Longrightarrow> reachable drv name (snd (connectDb drv s))"
| r_disconnectDb: "reachable drv name s \<Longrightarrow> reachable drv name (snd (disconnectDb drv s))"
| r_createUniqueIndex:
    "reachable drv name s \<Longrightarrow> reachable drv name (snd (createUniqueIndex drv fieldName collName s))"
| r_initDb:
    "reachable drv name s \<Longrightarrow> reachable drv name (snd (initDb drv order indexes collName s))"
| r_initCollection:
    "reachable drv name s \<Longrightarrow> reachable drv name (snd (initCollection drv indexes collName s))"
| r_documentExists:
    "reachable drv name s \<Longrightarrow> reachable drv name (snd (documentExists drv field val collName s))"
| r_addDocument:
    "reachable drv name s \<Longrightarrow> reachable drv name (snd (addDocument drv collName document s))"
| r_removeAllDocuments:
    "reachable drv name s \<Longrightarrow> reachable drv name (snd (removeAllDocuments drv collName s))"

text \<open>
  What holds of every such state: the name is the constructor's, a client held is the one
  the client promise gave, and a database handle is held only with a client and is the
  one \<^verbatim>\<open>client.db\<close> gives for that name. A client may be held without a database handle.
\<close>

definition handles_ok :: "('st, 'v) driver \<Rightarrow> string \<Rightarrow> ('st, 'v) state \<Rightarrow> bool" where
  "handles_ok drv name s \<longleftrightarrow>
     dbName s = name \<and>
     (case client s of
        None \<Rightarrow> db s = None
      | Some c \<Rightarrow>
          clientPromise drv = Inr c \<and>
          (case db s of None \<Rightarrow> True | Some d \<Rightarrow> client_db drv c name = Inr d))"

subsection \<open>A document store to run the methods on\<close>

text \<open>
  Modelled from the spec: the document store behind the imported driver and the client
  promise exported by \<^verbatim>\<open>./mongodb\<close>; neither is part of the class. Collections hold
  documents in insertion order; a filter matches a document that has each of its fields
  with the given value; a unique index refuses a second document with the same key.
  Where the spec is silent the store does as the driver does: asking again for an index
  that is there is not an error, asking for it with the other uniqueness option is error
  85; a database name with a dot in it is refused, the empty name stands for the default
  database; closing a client closes it for good, and every later request on one of its
  collections is refused. The general theorems below hold for every driver; this one
  serves to run the methods.
\<close>

record 'v memStore =
  documentsOf :: "Collection \<Rightarrow> 'v Document list"
  indexesOf :: "Collection \<Rightarrow> (IndexSpecification \<times> bool) list"
  nextId :: nat
  closedClients :: "client list"

definition matches :: "'v Filter \<Rightarrow> 'v Document \<Rightarrow> bool" where
  "matches q d = list_all (\<lambda>(f, v). map_of d f = Some v) q"

definition indexKey :: "IndexSpecification \<Rightarrow> 'v Document \<Rightarrow> 'v option list" where
  "indexKey spec d = map (\<lambda>(f, dir). map_of d f) spec"

definition duplicateKey :: error where
  "duplicateKey = Error ''E11000 duplicate key error'' (Num 11000) (Str ''DuplicateKey'')"

definition indexOptionsConflict :: error where
  "indexOptionsConflict =
     Error ''Index already exists with different options'' (Num 85) (Str ''IndexOptionsConflict'')"

definition notConnected :: error where
  "notConnected = Error ''Client must be connected before running operations'' Undefined Undefined"

definition invalidDatabaseName :: error where
  "invalidDatabaseName = Error ''Database names cannot contain the character .'' Undefined Undefined"

definition mem_client_db :: "client \<Rightarrow> string \<Rightarrow> error + Db" where
  "mem_client_db c name =
     (if name = [] then Inr (Db c ''test'')
      else if CHR ''.'' \<in> set name then Inl invalidDatabaseName
      else Inr (Db c name))"

definition mem_close :: "client \<Rightarrow> 'v memStore \<Rightarrow> (error + unit) \<times> 'v memStore" where
  "mem_close c st = (Inr (), st\<lparr>closedClients := c # closedClients st\<rparr>)"

definition clientClosed :: "Collection \<Rightarrow> 'v memStore \<Rightarrow> bool" where
  "clientClosed c st \<longleftrightarrow> dbClient (collectionDb c) \<in> set (closedClients st)"

definition mem_createIndex ::
  "Collection \<Rightarrow> IndexSpecification \<Rightarrow> bool \<Rightarrow> 'v memStore \<Rightarrow> (error + string) \<times> 'v memStore" where
  "mem_createIndex c spec uniq st =
     (if clientClosed c st then (Inl notConnected, st)
      else if (spec, uniq) \<in> set (indexesOf st c) then (Inr (concat (map fst spec)), st)
      else if spec \<in> set (map fst (indexesOf st c)) then (Inl indexOptionsConflict, st)
      else if uniq \<and> \<not> distinct (map (indexKey spec) (documentsOf st c)) then (Inl duplicateKey, st)
      else (Inr (concat (map fst spec)),
            st\<lparr>indexesOf := (indexesOf st)(c := indexesOf st c @ [(spec, uniq)])\<rparr>))"

definition mem_findOne ::
  "Collection \<Rightarrow> 'v Filter \<Rightarrow> 'v memStore \<Rightarrow> (error + 'v Document option) \<times> 'v memStore" where
  "mem_findOne c q st =
     (if clientClosed c st then (Inl notConnected, st)
      else (Inr (find (matches q) (documentsOf st c)), st))"

definition mem_insertOne ::
  "Collection \<Rightarrow> 'v Document \<Rightarrow> 'v memStore \<Rightarrow> (error + InsertOneResult) \<times> 'v memStore" where
  "mem_insertOne c d st =
     (if clientClosed c st then (Inl notConnected, st)
      else if list_ex (\<lambda>(spec, uniq). uniq \<and> indexKey spec d \<in> set (map (indexKey spec) (documentsOf st c)))
           (indexesOf st c)
      then (Inl duplicateKey, st)
      else (Inr (InsertOneResult True (nextId st)),
            st\<lparr>documentsOf := (documentsOf st)(c := documentsOf st c @ [d]), nextId := nextId st + 1\<rparr>))"

definition mem_deleteMany ::
  "Collection \<Rightarrow> 'v Filter \<Rightarrow> 'v memStore \<Rightarrow> (error + DeleteResult) \<times> 'v memStore" where
  "mem_deleteMany c q st =
     (if clientClosed c st then (Inl notConnected, st)
      else
        (Inr (DeleteResult True (length (filter (matches q) (documentsOf st c)))),
         st\<lparr>documentsOf := (documentsOf st)(c := filter (\<lambda>d. \<not> matches q d) (documentsOf st c))\<rparr>))"

definition memDriver :: "('v memStore, 'v) driver" where
  "memDriver =
     \<lparr>clientPromise = Inr 0,
      client_db = mem_client_db,
      close = mem_close,
      createIndex = mem_createIndex,
      findOne = mem_findOne,
      insertOne = mem_insertOne,
      deleteMany = mem_deleteMany\<rparr>"

definition emptyStore :: "'v memStore" where
  "emptyStore =
     \<lparr>documentsOf = (\<lambda>c. []), indexesOf = (\<lambda>c. []), nextId = 0, closedClients = []\<rparr>"

subsection \<open>What the store is expected to answer\<close>

text \<open>
  The answers of the store to the unique-index requests for the fields \<open>fs\<close>, issued in
  this order, and the store they leave. An answer is fatal for \<^verbatim>\<open>createUniqueIndex\<close>
  when it is an error that its catch block does not recognise.
\<close>

fun createIndex_replies ::
  "('st, 'v) driver \<Rightarrow> Collection \<Rightarrow> string list \<Rightarrow> 'st \<Rightarrow> (error + string) list \<times> 'st" where
  "createIndex_replies drv c [] st = ([], st)"
| "createIndex_replies drv c (f # fs) st =
     (case createIndex drv c [(f, 1)] True st of
        (r, st1) \<Rightarrow> (case createIndex_replies drv c fs st1 of (rs, st2) \<Rightarrow> (r # rs, st2)))"

fun fatal :: "error + string \<Rightarrow> bool" where
  "fatal (Inl e) = (\<not> indexAlreadyExists e)"
| "fatal (Inr nm) = False"

text \<open>What \<^verbatim>\<open>createUniqueIndex\<close> comes to on an answer of the store.\<close>

fun index_outcome :: "error + string \<Rightarrow> error + unit" where
  "index_outcome (Inl e) = (if indexAlreadyExists e then Inr () else Inl e)"
| "index_outcome (Inr nm) = Inr ()"

text \<open>
  The driver's contract for a query and for a deletion, at one request: \<open>docs\<close> tells
  which documents a store holds in a collection. \<^verbatim>\<open>findOne\<close> answers with a document
  exactly when one matches the filter; \<^verbatim>\<open>deleteMany\<close> removes the matching documents
  and reports how many they were.
\<close>

definition findOne_answers ::
  "('st, 'v) driver \<Rightarrow> ('st \<Rightarrow> Collection \<Rightarrow> 'v Document list) \<Rightarrow> Collection \<Rightarrow> 'v Filter \<Rightarrow> 'st
     \<Rightarrow> bool" where
  "findOne_answers drv docs c q st =
     (case findOne drv c q st of
        (Inl e, st') \<Rightarrow> False
      | (Inr r, st') \<Rightarrow> (r \<noteq> None) = list_ex (matches q) (docs st c))"

definition deleteMany_answers ::
  "('st, 'v) driver \<Rightarrow> ('st \<Rightarrow> Collection \<Rightarrow> 'v Document list) \<Rightarrow> Collection \<Rightarrow> 'v Filter \<Rightarrow> 'st
     \<Rightarrow> bool" where
  "deleteMany_answers drv docs c q st =
     (case deleteMany drv c q st of
        (Inl e, st') \<Rightarrow> False
      | (Inr res, st') \<Rightarrow>
          deletedCount res = length (filter (matches q) (docs st c)) \<and>
          docs st' c = filter (\<lambda>d. \<not> matches q d) (docs st c))"

text \<open>A fresh object for the database \<open>pgc\<close> on the empty store, and the same once connected.\<close>

definition freshState :: "(string memStore, string) state" where
  "freshState = instance_state (new_DataBase ''pgc'') emptyStore"

definition connectedState :: "(string memStore, string) state" where
  "connectedState = snd (connectDb memDriver freshState)"

text \<open>Two users in the collection \<open>User\<close>.\<close>

definition twoUsers :: "(string memStore, string) state" where
  "twoUsers =
     snd (addDocument memDriver ''User'' [(''email'', ''b@x.com'')]
       (snd (addDocument memDriver ''User'' [(''email'', ''a@x.com'')] freshState)))"



definition twinsFresh :: "(string memStore, string) state" where
  "twinsFresh =
     freshState\<lparr>store := emptyStore\<lparr>documentsOf :=
       (\<lambda>c. [[(''email'', ''a@x.com''), (''name'', ''Ann'')],
              [(''email'', ''a@x.com''), (''name'', ''Bob'')]])\<rparr>\<rparr>"

text \<open>The connected object after \<^verbatim>\<open>disconnectDb\<close>.\<close>

definition disconnectedState :: "(string memStore, string) state" where
  "disconnectedState = snd (disconnectDb memDriver connectedState)"

text \<open>A driver whose client promise is rejected, and one whose client cannot be closed.\<close>

definition unreachableDriver :: "(string memStore, string) driver" where
  "unreachableDriver = memDriver\<lparr>clientPromise := Inl (Error ''connection refused'' Undefined Undefined)\<rparr>"

definition stuckDriver :: "(string memStore, string) driver" where
  "stuckDriver = memDriver\<lparr>close := \<lambda>c st. (Inl (Error ''closing failed'' Undefined Undefined), st)\<rparr>"

text \<open>
  An object for a database name with a dot in it, after its first attempt to connect
  through that driver: it holds the client and no database handle.
\<close>

definition dottedState :: "(string memStore, string) state" where
  "dottedState = snd (connectDb stuckDriver (instance_state (new_DataBase ''pgc.v2'') emptyStore))"

section \<open>Properties\<close>

subsection \<open>Single steps\<close>

lemma connectDb_rejected:
  "db s = None \<Longrightarrow> clientPromise drv = Inl e \<Longrightarrow>
   connectDb drv s = (Inl e, s\<lparr>calls := calls s @ [AwaitClientPromise]\<rparr>)"
  by (simp add: connectDb_def await_clientPromise_def)

lemma connectDb_refused:
  "db s = None \<Longrightarrow> clientPromise drv = Inr c \<Longrightarrow> client_db drv c (dbName s) = Inl e \<Longrightarrow>
   connectDb drv s = (Inl e, s\<lparr>calls := calls s @ [AwaitClientPromise], client := Some c\<rparr>)"
  by (simp add: connectDb_def await_clientPromise_def)

lemma connectDb_resolved:
  "db s = None \<Longrightarrow> clientPromise drv = Inr c \<Longrightarrow> client_db drv c (dbName s) = Inr d \<Longrightarrow>
   connectDb drv s =
     (Inr (), s\<lparr>calls := calls s @ [AwaitClientPromise], client := Some c, db := Some d\<rparr>)"
  by (simp add: connectDb_def await_clientPromise_def)

lemma connectDb_dbName: "dbName (snd (connectDb drv s)) = dbName s"
  by (simp add: connectDb_def await_clientPromise_def split: sum.splits)

lemma createUniqueIndex_connected:
  "db s = Some d \<Longrightarrow>
   createUniqueIndex drv f collName s =
     (case createIndex drv (Collection d collName) [(f, 1)] True (store s) of
        (r, st) \<Rightarrow>
          ((case r of Inl e \<Rightarrow> if indexAlreadyExists e then Inr () else Inl e | Inr nm \<Rightarrow> Inr ()),
           s\<lparr>store := st, calls := calls s @ [CreateIndex (Collection d collName) [(f, 1)] True]\<rparr>))"
  by (simp add: createUniqueIndex_def getCollection_def collection_createIndex_def
      createUniqueIndex_catch_def split: prod.splits sum.splits)

lemma not_indexAlreadyExists_notInitialized: "\<not> indexAlreadyExists notInitialized"
  by (simp add: indexAlreadyExists_def notInitialized_def)

lemma createUniqueIndex_disconnected:
  "db s = None \<Longrightarrow> createUniqueIndex drv f collName s = (Inl notInitialized, s)"
  by (simp add: createUniqueIndex_def getCollection_def createUniqueIndex_catch_def
      not_indexAlreadyExists_notInitialized)

lemma createUniqueIndex_fields:
  "db (snd (createUniqueIndex drv f collName s)) = db s"
  "client (snd (createUniqueIndex drv f collName s)) = client s"
  "dbName (snd (createUniqueIndex drv f collName s)) = dbName s"
  by (cases "db s"; simp add: createUniqueIndex_connected createUniqueIndex_disconnected
        split: prod.splits)+

lemma createUniqueIndex_error_fatal:
  "fst (createUniqueIndex drv f collName s) = Inl e \<Longrightarrow> \<not> indexAlreadyExists e"
  by (cases "db s")
     (auto simp: createUniqueIndex_connected createUniqueIndex_disconnected
        not_indexAlreadyExists_notInitialized split: prod.splits sum.splits if_splits)


lemma handles_ok_same_fields:
  "handles_ok drv name s \<Longrightarrow> dbName s' = dbName s \<Longrightarrow> client s' = client s \<Longrightarrow> db s' = db s
   \<Longrightarrow> handles_ok drv name s'"
  by (simp add: handles_ok_def split: option.splits)

lemma handles_ok_connectDb: "handles_ok drv name s \<Longrightarrow> handles_ok drv name (snd (connectDb drv s))"
  by (auto simp: handles_ok_def connectDb_def await_clientPromise_def split: sum.splits option.splits)

lemma handles_ok_ensure:
  "handles_ok drv name s \<Longrightarrow>
   handles_ok drv name (snd (if db s = None then connectDb drv s else (Inr (), s)))"
  by (simp add: handles_ok_connectDb)

lemma handles_ok_disconnectDb:
  "handles_ok drv name s \<Longrightarrow> handles_ok drv name (snd (disconnectDb drv s))"
  by (auto simp: handles_ok_def disconnectDb_def client_close_def split: sum.splits option.splits prod.splits)

lemma handles_ok_createUniqueIndex:
  "handles_ok drv name s \<Longrightarrow> handles_ok drv name (snd (createUniqueIndex drv f collName s))"
  by (erule handles_ok_same_fields) (simp_all add: createUniqueIndex_fields)

lemma handles_ok_settle_all:
  "handles_ok drv name s \<Longrightarrow>
   handles_ok drv name (snd (settle_all (map (\<lambda>f. createUniqueIndex drv f collName) fs) s))"
proof (induction fs arbitrary: s)
  case Nil
  then show ?case by simp
next
  case (Cons f fs)
  from Cons.prems have "handles_ok drv name (snd (createUniqueIndex drv f collName s))"
    by (rule handles_ok_createUniqueIndex)
  from Cons.IH [OF this] show ?case
    by (auto split: prod.splits)
qed

lemma handles_ok_promise_all:
  "handles_ok drv name s \<Longrightarrow>
   handles_ok drv name
     (snd (promise_all order (map (\<lambda>f. createUniqueIndex drv f collName) fs) s))"
  using handles_ok_settle_all [of drv name s collName fs]
  by (auto simp: promise_all_def split: prod.splits)

lemma handles_ok_loop:
  "handles_ok drv name s \<Longrightarrow>
   handles_ok drv name (snd (initCollection_loop drv indexes collName i s))"
proof (induction drv indexes collName i s rule: initCollection_loop.induct)
  case (1 drv indexes collName i s)
  show ?case
  proof (cases "i < length indexes")
    case False
    with "1.prems" show ?thesis by (simp add: initCollection_loop.simps)
  next
    case True
    obtain r s1 where step: "createUniqueIndex drv (indexes ! i) collName s = (r, s1)"
      by (cases "createUniqueIndex drv (indexes ! i) collName s")
    have ok1: "handles_ok drv name s1"
      using handles_ok_createUniqueIndex [OF "1.prems", of "indexes ! i" collName] step by simp
    show ?thesis
    proof (cases r)
      case (Inl e)
      with True step ok1 show ?thesis
        by (simp add: initCollection_loop.simps [of drv indexes collName i s])
    next
      case (Inr u)
      with "1.IH" [OF True step [symmetric] _ ok1] True step show ?thesis
        by (simp add: initCollection_loop.simps [of drv indexes collName i s])
    qed
  qed
qed

lemma handles_ok_initDb:
  "handles_ok drv name s \<Longrightarrow> handles_ok drv name (snd (initDb drv order indexes collName s))"
proof -
  assume ok: "handles_ok drv name s"
  show ?thesis
  proof (cases "db s = None")
    case False
    with ok show ?thesis by (auto simp: initDb_def)
  next
    case True
    obtain r s1 where c: "connectDb drv s = (r, s1)" by (cases "connectDb drv s")
    have ok1: "handles_ok drv name s1" using handles_ok_connectDb [OF ok] c by simp
    from handles_ok_promise_all [OF ok1, of order collName indexes] True c ok1 show ?thesis
      by (auto simp: initDb_def split: sum.splits prod.splits)
  qed
qed

lemma handles_ok_initCollection:
  "handles_ok drv name s \<Longrightarrow> handles_ok drv name (snd (initCollection drv indexes collName s))"
proof -
  assume ok: "handles_ok drv name s"
  obtain r s1 where c: "(if db s = None then connectDb drv s else (Inr (), s)) = (r, s1)"
    by (cases "if db s = None then connectDb drv s else (Inr (), s)")
  have ok1: "handles_ok drv name s1" using handles_ok_ensure [OF ok] c by simp
  from handles_ok_loop [OF ok1, of indexes collName 0] c ok1 show ?thesis
    by (auto simp: initCollection_def split: sum.splits prod.splits)
qed

lemma handles_ok_documentExists:
  "handles_ok drv name s \<Longrightarrow> handles_ok drv name (snd (documentExists drv field val collName s))"
proof -
  assume ok: "handles_ok drv name s"
  obtain r s1 where c: "(if db s = None then connectDb drv s else (Inr (), s)) = (r, s1)"
    by (cases "if db s = None then connectDb drv s else (Inr (), s)")
  have ok1: "handles_ok drv name s1" using handles_ok_ensure [OF ok] c by simp
  then show ?thesis using c
    by (auto simp: documentExists_def getCollection_def collection_findOne_def handles_ok_def
        split: sum.splits prod.splits option.splits)
qed

lemma handles_ok_addDocument:
  "handles_ok drv name s \<Longrightarrow> handles_ok drv name (snd (addDocument drv collName document s))"
proof -
  assume ok: "handles_ok drv name s"
  obtain r s1 where c: "(if db s = None then connectDb drv s else (Inr (), s)) = (r, s1)"
    by (cases "if db s = None then connectDb drv s else (Inr (), s)")
  have ok1: "handles_ok drv name s1" using handles_ok_ensure [OF ok] c by simp
  then show ?thesis using c
    by (auto simp: addDocument_def getCollection_def collection_insertOne_def handles_ok_def
        split: sum.splits prod.splits option.splits)
qed

lemma handles_ok_removeAllDocuments:
  "handles_ok drv name s \<Longrightarrow> handles_ok drv name (snd (removeAllDocuments drv collName s))"
proof -
  assume ok: "handles_ok drv name s"
  obtain r s1 where c: "(if db s = None then connectDb drv s else (Inr (), s)) = (r, s1)"
    by (cases "if db s = None then connectDb drv s else (Inr (), s)")
  have ok1: "handles_ok drv name s1" using handles_ok_ensure [OF ok] c by simp
  then show ?thesis using c
    by (auto simp: removeAllDocuments_def getCollection_def collection_deleteMany_def handles_ok_def
        split: sum.splits prod.splits option.splits)
qed

lemma reachable_handles_ok: "reachable drv name s \<Longrightarrow> handles_ok drv name s"
proof (induction rule: reachable.induct)
  case (r_new st)
  show ?case by (simp add: handles_ok_def instance_state_def new_DataBase_def)
qed (simp_all add: handles_ok_connectDb handles_ok_disconnectDb handles_ok_createUniqueIndex
      handles_ok_initDb handles_ok_initCollection handles_ok_documentExists
      handles_ok_addDocument handles_ok_removeAllDocuments)

lemma ensure_connection:
  assumes "db s = Some d \<or>
           (db s = None \<and> clientPromise drv = Inr c \<and> client_db drv c (dbName s) = Inr d)"
  shows "\<exists>s1. (if db s = None then connectDb drv s else (Inr (), s)) = (Inr (), s1) \<and>
           db s1 = Some d \<and> store s1 = store s \<and> dbName s1 = dbName s \<and>
           calls s1 = calls s @ (if db s = None then [AwaitClientPromise] else [])"
  using assms by (auto simp: connectDb_resolved)

lemma matches_buildQuery: "matches (buildQuery field val) doc \<longleftrightarrow> map_of doc field = Some val"
  by (simp add: matches_def buildQuery_def)

lemma matches_empty: "matches [] doc"
  by (simp add: matches_def)

lemma mem_findOne_answers:
  "\<not> clientClosed c st \<Longrightarrow> findOne_answers memDriver documentsOf c q st"
  by (auto simp: findOne_answers_def memDriver_def mem_findOne_def find_None_iff list_ex_iff)

lemma mem_deleteMany_answers:
  "\<not> clientClosed c st \<Longrightarrow> deleteMany_answers memDriver documentsOf c q st"
  by (simp add: deleteMany_answers_def memDriver_def mem_deleteMany_def)

lemma find_fatal_Some: "find fatal rs = Some r \<Longrightarrow> \<exists>e. r = Inl e \<and> \<not> indexAlreadyExists e"
proof -
  assume "find fatal rs = Some r"
  then have "fatal r" by (auto simp: find_Some_iff)
  then show ?thesis by (cases r) simp_all
qed

lemma isl_index_outcome: "isl (index_outcome r) \<longleftrightarrow> fatal r"
  by (cases r) simp_all

lemma set_settle_order: "set (settle_order order n) = {..<n}"
  by (auto simp: settle_order_def)

lemma length_createIndex_replies:
  "createIndex_replies drv c fs st = (rs, st') \<Longrightarrow> length rs = length fs"
  by (induction fs arbitrary: st rs) (auto split: prod.splits)

lemma first_settled:
  "\<forall>i \<in> set js. i < length rs \<Longrightarrow>
   find isl (map (\<lambda>i. map index_outcome rs ! i) js) =
     map_option index_outcome (find fatal (map (\<lambda>i. rs ! i) js))"
  by (induction js) (simp_all add: isl_index_outcome)


lemma settle_all_replies:
  "db s = Some d \<Longrightarrow>
   createIndex_replies drv (Collection d collName) fs (store s) = (rs, st) \<Longrightarrow>
   settle_all (map (\<lambda>f. createUniqueIndex drv f collName) fs) s =
     (map index_outcome rs,
      s\<lparr>store := st,
        calls := calls s @ map (\<lambda>f. CreateIndex (Collection d collName) [(f, 1)] True) fs\<rparr>)"
proof (induction fs arbitrary: s rs st)
  case Nil
  then show ?case by auto
next
  case (Cons f fs)
  obtain r st1 where r: "createIndex drv (Collection d collName) [(f, 1)] True (store s) = (r, st1)"
    by (cases "createIndex drv (Collection d collName) [(f, 1)] True (store s)")
  obtain rs' st2 where rs': "createIndex_replies drv (Collection d collName) fs st1 = (rs', st2)"
    by (cases "createIndex_replies drv (Collection d collName) fs st1")
  from Cons.prems(2) r rs' have eq: "rs = r # rs'" "st = st2" by auto
  define s1 where
    "s1 = s\<lparr>store := st1, calls := calls s @ [CreateIndex (Collection d collName) [(f, 1)] True]\<rparr>"
  have d1: "db s1 = Some d" and st1: "store s1 = st1"
    using Cons.prems(1) by (simp_all add: s1_def)
  have step: "createUniqueIndex drv f collName s = (index_outcome r, s1)"
    using r by (cases r) (simp_all add: createUniqueIndex_connected [OF Cons.prems(1)] s1_def)
  from rs' st1 have "createIndex_replies drv (Collection d collName) fs (store s1) = (rs', st2)"
    by simp
  from Cons.IH [OF d1 this] step eq show ?case
    by (simp add: s1_def)
qed

lemma promise_all_replies:
  assumes d: "db s = Some d"
    and rep: "createIndex_replies drv (Collection d collName) fs (store s) = (rs, st)"
  shows "promise_all order (map (\<lambda>f. createUniqueIndex drv f collName) fs) s =
     ((case find fatal (map (\<lambda>i. rs ! i) (settle_order order (length fs))) of
         Some (Inl e) \<Rightarrow> Inl e
       | _ \<Rightarrow> Inr (map projr (map index_outcome rs))),
      s\<lparr>store := st,
        calls := calls s @ map (\<lambda>f. CreateIndex (Collection d collName) [(f, 1)] True) fs\<rparr>)"
proof -
  have len: "length rs = length fs"
    using rep by (rule length_createIndex_replies)
  have "\<forall>i \<in> set (settle_order order (length fs)). i < length rs"
    by (simp add: set_settle_order len)
  note fs = first_settled [OF this]
  show ?thesis
  proof (cases "find fatal (map (\<lambda>i. rs ! i) (settle_order order (length fs)))")
    case None
    with fs show ?thesis
      by (simp add: promise_all_def settle_all_replies [OF d rep] len)
  next
    case (Some r)
    then obtain e where r: "r = Inl e" "\<not> indexAlreadyExists e"
      by (auto dest: find_fatal_Some)
    with Some fs show ?thesis
      by (simp add: promise_all_def settle_all_replies [OF d rep] len)
  qed
qed


lemma documentExists_answer:
  assumes conn: "db s = Some d \<or>
      (db s = None \<and> clientPromise drv = Inr c \<and> client_db drv c (dbName s) = Inr d)"
    and ans: "findOne_answers drv docs (Collection d collName) (buildQuery field val) (store s)"
  shows "fst (documentExists drv field val collName s) =
           Inr (\<exists>doc \<in> set (docs (store s) (Collection d collName)). map_of doc field = Some val) \<and>
         db (snd (documentExists drv field val collName s)) = Some d \<and>
         calls (snd (documentExists drv field val collName s)) =
           calls s @ (if db s = None then [AwaitClientPromise] else []) @
           [FindOne (Collection d collName) [(field, val)]]"
proof -
  from ensure_connection [OF conn] obtain s1 where
    s1: "(if db s = None then connectDb drv s else (Inr (), s)) = (Inr (), s1)"
      "db s1 = Some d" "store s1 = store s"
      "calls s1 = calls s @ (if db s = None then [AwaitClientPromise] else [])"
    by blast
  obtain r st where f: "findOne drv (Collection d collName) (buildQuery field val) (store s) = (r, st)"
    by (cases "findOne drv (Collection d collName) (buildQuery field val) (store s)")
  from ans f obtain document where r: "r = Inr document"
    and iff: "(document \<noteq> None) = list_ex (matches (buildQuery field val)) (docs (store s) (Collection d collName))"
    by (cases r) (auto simp: findOne_answers_def)
  have run: "documentExists drv field val collName s =
      (Inr (document \<noteq> None),
       s1\<lparr>store := st, calls := calls s1 @ [FindOne (Collection d collName) (buildQuery field val)]\<rparr>)"
    unfolding documentExists_def s1(1)
    using s1(2,3) f r by (simp add: getCollection_def collection_findOne_def)
  show ?thesis
    unfolding run using iff s1(2,4)
    by (simp add: list_ex_iff matches_def buildQuery_def)
qed


text \<open>The definitions to unfold when a method is run on the store above.\<close>

lemmas run_defs =
  freshState_def connectedState_def instance_state_def new_DataBase_def emptyStore_def
  memDriver_def mem_createIndex_def mem_findOne_def mem_insertOne_def mem_deleteMany_def
  mem_close_def mem_client_db_def clientClosed_def
  connectDb_def disconnectDb_def await_clientPromise_def client_close_def
  getCollection_def createUniqueIndex_def createUniqueIndex_catch_def indexAlreadyExists_def
  collection_createIndex_def collection_findOne_def collection_insertOne_def
  collection_deleteMany_def addDocument_def removeAllDocuments_def documentExists_def
  initDb_def initCollection_def promise_all_def settle_order_def buildQuery_def matches_def
  indexKey_def duplicateKey_def indexOptionsConflict_def notInitialized_def notConnected_def
  invalidDatabaseName_def

subsection \<open>The singleton\<close>

text \<open>
  Claim C5. Two calls of \<^verbatim>\<open>getInstance\<close>, whatever the names, return the same reference,
  and the second call changes nothing: no second object is allocated. When no instance
  existed, the object at that reference is the one constructed from the first caller's
  name; when one existed, it is returned as it is. No method ever changes the name: every
  state the object reaches carries the name it was constructed with.
\<close>

theorem getInstance_singleton:
  "fst (getInstance name2 (snd (getInstance name1 p))) = fst (getInstance name1 p) \<and>
   snd (getInstance name2 (snd (getInstance name1 p))) = snd (getInstance name1 p) \<and>
   (instance_field p = None \<longrightarrow>
      objects (snd (getInstance name1 p)) ! fst (getInstance name1 p) = new_DataBase name1) \<and>
   (\<forall>a. instance_field p = Some a \<longrightarrow> getInstance name1 p = (a, p)) \<and>
   (\<forall>s. reachable drv name1 s \<longrightarrow> dbName s = name1)"
proof -
  have "\<forall>s. reachable drv name1 s \<longrightarrow> dbName s = name1"
    using reachable_handles_ok [of drv name1] by (simp add: handles_ok_def)
  then show ?thesis
    by (auto simp: getInstance_def Let_def split: option.splits)
qed

theorem getInstance_singleton_witness:
  "instance_field \<lparr>objects = [], instance_field = None\<rparr> = None \<and>
   getInstance ''pgc'' \<lparr>objects = [], instance_field = None\<rparr> =
     (0, \<lparr>objects = [new_DataBase ''pgc''], instance_field = Some 0\<rparr>) \<and>
   getInstance ''other'' \<lparr>objects = [new_DataBase ''pgc''], instance_field = Some 0\<rparr> =
     (0, \<lparr>objects = [new_DataBase ''pgc''], instance_field = Some 0\<rparr>) \<and>
   reachable memDriver ''pgc'' connectedState \<and> dbName connectedState = ''pgc''"
proof -
  have r: "reachable memDriver ''pgc'' connectedState"
    unfolding connectedState_def freshState_def by (intro r_connectDb r_new)
  have g: "getInstance ''pgc'' \<lparr>objects = [], instance_field = None\<rparr> =
      (0, \<lparr>objects = [new_DataBase ''pgc''], instance_field = Some 0\<rparr>)"
    by (simp add: getInstance_def)
  from r g getInstance_singleton [of "''other''" "''pgc''" "\<lparr>objects = [], instance_field = None\<rparr>" memDriver]
  show ?thesis by (cases "getInstance ''other'' \<lparr>objects = [new_DataBase ''pgc''], instance_field = Some 0\<rparr>") auto
qed

subsection \<open>Connecting and disconnecting\<close>

text \<open>
  Claim C6. In a state that holds both a client and a database handle, \<^verbatim>\<open>connectDb\<close>
  returns at once: the state is the one it was called in, so both handles are the same
  references and the client promise is not awaited again.
\<close>

theorem connectDb_idempotent:
  assumes "client s \<noteq> None" and "db s \<noteq> None"
  shows "connectDb drv s = (Inr (), s) \<and>
         client (snd (connectDb drv s)) = client s \<and> db (snd (connectDb drv s)) = db s \<and>
         calls (snd (connectDb drv s)) = calls s"
  using assms by (simp add: connectDb_def)

theorem connectDb_idempotent_witness:
  "client connectedState \<noteq> None \<and> db connectedState \<noteq> None \<and>
   connectDb memDriver connectedState = (Inr (), connectedState) \<and>
   calls (snd (connectDb memDriver connectedState)) = [AwaitClientPromise]"
proof -
  have c: "client connectedState \<noteq> None"
    by (simp add: run_defs)
  have d: "db connectedState \<noteq> None"
    by (simp add: run_defs)
  have l: "calls connectedState = [AwaitClientPromise]"
    by (simp add: run_defs)
  from c d l connectDb_idempotent [OF c d, of memDriver] show ?thesis by simp
qed

text \<open>
  Claim C10, as amended. Without a client \<^verbatim>\<open>disconnectDb\<close> does nothing. With a client,
  when closing fails the error is rethrown and the client and database fields are what
  they were: the client is still there, and the database handle is there if it was. When
  closing succeeds both fields are null.
\<close>

theorem disconnectDb_atomic:
  "(client s = None \<longrightarrow> disconnectDb drv s = (Inr (), s)) \<and>
   (\<forall>c e st. client s = Some c \<and> close drv c (store s) = (Inl e, st) \<longrightarrow>
      fst (disconnectDb drv s) = Inl e \<and>
      client (snd (disconnectDb drv s)) = Some c \<and> db (snd (disconnectDb drv s)) = db s \<and>
      dbName (snd (disconnectDb drv s)) = dbName s) \<and>
   (\<forall>c u st. client s = Some c \<and> close drv c (store s) = (Inr u, st) \<longrightarrow>
      fst (disconnectDb drv s) = Inr () \<and>
      client (snd (disconnectDb drv s)) = None \<and> db (snd (disconnectDb drv s)) = None)"
  by (auto simp: disconnectDb_def client_close_def)

text \<open>
  Claim C10 as stated fails where it says that the database field is still non-null after
  a failed close. An object named \<open>pgc.v2\<close> holds the client and no database handle once
  its connect has failed on the name; closing fails, and the database field is null, as
  it was.
\<close>

theorem disconnectDb_db_null_counterexample:
  "reachable stuckDriver ''pgc.v2'' dottedState \<and>
   client dottedState = Some 0 \<and> db dottedState = None \<and>
   fst (disconnectDb stuckDriver dottedState) = Inl (Error ''closing failed'' Undefined Undefined) \<and>
   client (snd (disconnectDb stuckDriver dottedState)) = Some 0 \<and>
   db (snd (disconnectDb stuckDriver dottedState)) = None"
proof -
  have r: "reachable stuckDriver ''pgc.v2'' dottedState"
    unfolding dottedState_def by (intro r_connectDb r_new)
  then show ?thesis
    by (simp add: dottedState_def stuckDriver_def run_defs)
qed

theorem disconnectDb_atomic_witness:
  "client freshState = None \<and> disconnectDb memDriver freshState = (Inr (), freshState) \<and>
   client connectedState = Some 0 \<and>
   close stuckDriver 0 (store connectedState) =
     (Inl (Error ''closing failed'' Undefined Undefined), emptyStore) \<and>
   fst (disconnectDb stuckDriver connectedState) =
     Inl (Error ''closing failed'' Undefined Undefined) \<and>
   client (snd (disconnectDb stuckDriver connectedState)) = Some 0 \<and>
   db (snd (disconnectDb stuckDriver connectedState)) = Some (Db 0 ''pgc'') \<and>
   fst (close memDriver 0 (store connectedState)) = Inr () \<and>
   fst (disconnectDb memDriver connectedState) = Inr () \<and>
   client (snd (disconnectDb memDriver connectedState)) = None \<and>
   db (snd (disconnectDb memDriver connectedState)) = None"
proof -
  have f: "client freshState = None"
    by (simp add: run_defs)
  have c: "client connectedState = Some 0" "db connectedState = Some (Db 0 ''pgc'')"
      "store connectedState = emptyStore"
    by (simp_all add: run_defs)
  have k: "close memDriver 0 emptyStore = (Inr (), emptyStore\<lparr>closedClients := [0]\<rparr>)"
    by (simp add: run_defs)
  have k': "close stuckDriver 0 emptyStore =
      (Inl (Error ''closing failed'' Undefined Undefined), emptyStore)"
    by (simp add: stuckDriver_def)
  from f c k k'
    disconnectDb_atomic [of freshState memDriver]
    disconnectDb_atomic [of connectedState stuckDriver]
    disconnectDb_atomic [of connectedState memDriver]
  show ?thesis by auto
qed

subsection \<open>Collections\<close>

text \<open>
  Claim C7. Without a database handle \<^verbatim>\<open>getCollection\<close> fails with the error whose message
  is "Database not initialized. Call initDb() first." and leaves the state as it is: no
  client promise is awaited, no handle is set. With a database handle it returns the
  collection of that name on that handle.
\<close>

theorem getCollection_requires_connection:
  "(db s = None \<longrightarrow> getCollection collName s = (Inl notInitialized, s)) \<and>
   (\<forall>d. db s = Some d \<longrightarrow> getCollection collName s = (Inr (Collection d collName), s)) \<and>
   message notInitialized = ''Database not initialized. Call initDb() first.''"
  by (simp add: getCollection_def notInitialized_def)

theorem getCollection_requires_connection_witness:
  "db freshState = None \<and> getCollection ''User'' freshState = (Inl notInitialized, freshState) \<and>
   db connectedState = Some (Db 0 ''pgc'') \<and>
   getCollection ''User'' connectedState = (Inr (Collection (Db 0 ''pgc'') ''User''), connectedState)"
proof -
  have f: "db freshState = None"
    by (simp add: run_defs)
  have c: "db connectedState = Some (Db 0 ''pgc'')"
    by (simp add: run_defs)
  from f c getCollection_requires_connection [of freshState "''User''"]
    getCollection_requires_connection [of connectedState "''User''"]
  show ?thesis by simp
qed

subsection \<open>Indexes\<close>





text \<open>
  Claim C1, as amended. Holding a database handle, \<^verbatim>\<open>initDb\<close> requests no index and
  returns the handle. Holding none, it connects; if the client promise is rejected, or
  the database name refused, the error is rethrown and no index is requested. Otherwise
  it requests a unique index for every field, in the order of the array and whatever the
  answers are, the store handling the requests in that order; it returns the new handle
  when no answer is fatal, and otherwise the fatal answer that settles first, whatever
  the order in which the answers settle.
\<close>

theorem initDb_creates_indexes_once:
  "(db s \<noteq> None \<longrightarrow> initDb drv order ixs collName s = (Inr (db s), s)) \<and>
   (\<forall>e. db s = None \<and> clientPromise drv = Inl e \<longrightarrow>
      initDb drv order ixs collName s = (Inl e, s\<lparr>calls := calls s @ [AwaitClientPromise]\<rparr>)) \<and>
   (\<forall>c e. db s = None \<and> clientPromise drv = Inr c \<and> client_db drv c (dbName s) = Inl e \<longrightarrow>
      initDb drv order ixs collName s =
        (Inl e, s\<lparr>calls := calls s @ [AwaitClientPromise], client := Some c\<rparr>)) \<and>
   (\<forall>c d rs st. db s = None \<and> clientPromise drv = Inr c \<and>
      client_db drv c (dbName s) = Inr d \<and>
      createIndex_replies drv (Collection d collName) ixs (store s) = (rs, st) \<longrightarrow>
      initDb drv order ixs collName s =
        ((case find fatal (map (\<lambda>i. rs ! i) (settle_order order (length ixs))) of
            Some (Inl e) \<Rightarrow> Inl e
          | _ \<Rightarrow> Inr (Some d)),
         s\<lparr>client := Some c, db := Some d, store := st,
           calls := calls s @ AwaitClientPromise #
             map (\<lambda>f. CreateIndex (Collection d collName) [(f, 1)] True) ixs\<rparr>))"
proof -
  have fourth: "initDb drv order ixs collName s =
        ((case find fatal (map (\<lambda>i. rs ! i) (settle_order order (length ixs))) of
            Some (Inl e) \<Rightarrow> Inl e
          | _ \<Rightarrow> Inr (Some d)),
         s\<lparr>client := Some c, db := Some d, store := st,
           calls := calls s @ AwaitClientPromise #
             map (\<lambda>f. CreateIndex (Collection d collName) [(f, 1)] True) ixs\<rparr>)"
    if n: "db s = None" and p: "clientPromise drv = Inr c"
      and h: "client_db drv c (dbName s) = Inr d"
      and rep: "createIndex_replies drv (Collection d collName) ixs (store s) = (rs, st)"
    for c d rs st
  proof -
    define s1 where
      "s1 = s\<lparr>calls := calls s @ [AwaitClientPromise], client := Some c, db := Some d\<rparr>"
    have d1: "db s1 = Some d" and st1: "store s1 = store s"
      by (simp_all add: s1_def)
    from rep st1 have "createIndex_replies drv (Collection d collName) ixs (store s1) = (rs, st)"
      by simp
    from promise_all_replies [OF d1 this, of order] connectDb_resolved [OF n p h] n show ?thesis
      by (auto simp: initDb_def s1_def split: option.splits sum.splits)
  qed
  show ?thesis
    using fourth by (auto simp: initDb_def connectDb_rejected connectDb_refused)
qed

text \<open>
  Claim C1 as stated fails on a connected object: \<^verbatim>\<open>initDb\<close> returns the handle it
  holds, the driver sees no request for an index on \<open>email\<close>, and the store has none.
\<close>

theorem initDb_connected_counterexample:
  "db connectedState = Some (Db 0 ''pgc'') \<and>
   initDb memDriver [] [''email''] ''User'' connectedState =
     (Inr (Some (Db 0 ''pgc'')), connectedState) \<and>
   calls (snd (initDb memDriver [] [''email''] ''User'' connectedState)) = [AwaitClientPromise] \<and>
   CreateIndex (Collection (Db 0 ''pgc'') ''User'') [(''email'', 1)] True
     \<notin> set (calls (snd (initDb memDriver [] [''email''] ''User'' connectedState))) \<and>
   indexesOf (store (snd (initDb memDriver [] [''email''] ''User'' connectedState)))
     (Collection (Db 0 ''pgc'') ''User'') = []"
  by (simp add: run_defs)

theorem initDb_creates_indexes_once_witness:
  "db connectedState \<noteq> None \<and>
   initDb memDriver [1, 0] [''email'', ''name''] ''User'' connectedState =
     (Inr (db connectedState), connectedState) \<and>
   db freshState = None \<and>
   clientPromise unreachableDriver = Inl (Error ''connection refused'' Undefined Undefined) \<and>
   initDb unreachableDriver [1, 0] [''email'', ''name''] ''User'' freshState =
     (Inl (Error ''connection refused'' Undefined Undefined),
      freshState\<lparr>calls := [AwaitClientPromise]\<rparr>) \<and>
   clientPromise stuckDriver = Inr 0 \<and> client_db stuckDriver 0 ''pgc.v2'' = Inl invalidDatabaseName \<and>
   initDb stuckDriver [1, 0] [''email'', ''name''] ''User''
       (instance_state (new_DataBase ''pgc.v2'') emptyStore) =
     (Inl invalidDatabaseName, dottedState) \<and>
   clientPromise memDriver = Inr 0 \<and> client_db memDriver 0 ''pgc'' = Inr (Db 0 ''pgc'') \<and>
   fst (initDb memDriver [1, 0] [''email'', ''name''] ''User'' freshState) =
     Inr (Some (Db 0 ''pgc'')) \<and>
   calls (snd (initDb memDriver [1, 0] [''email'', ''name''] ''User'' freshState)) =
     [AwaitClientPromise,
      CreateIndex (Collection (Db 0 ''pgc'') ''User'') [(''email'', 1)] True,
      CreateIndex (Collection (Db 0 ''pgc'') ''User'') [(''name'', 1)] True] \<and>
   fst (initDb memDriver [1, 0] [''email'', ''name''] ''User'' twinsFresh) = Inl duplicateKey \<and>
   calls (snd (initDb memDriver [1, 0] [''email'', ''name''] ''User'' twinsFresh)) =
     [AwaitClientPromise,
      CreateIndex (Collection (Db 0 ''pgc'') ''User'') [(''email'', 1)] True,
      CreateIndex (Collection (Db 0 ''pgc'') ''User'') [(''name'', 1)] True] \<and>
   indexesOf (store (snd (initDb memDriver [1, 0] [''email'', ''name''] ''User'' twinsFresh)))
     (Collection (Db 0 ''pgc'') ''User'') = [([(''name'', 1)], True)]"
proof -
  let ?C = "Collection (Db 0 ''pgc'') ''User''"
  let ?new = "instance_state (new_DataBase ''pgc.v2'') emptyStore :: (string memStore, string) state"
  have c: "db connectedState \<noteq> None" "db freshState = None" "db twinsFresh = None"
      "dbName freshState = ''pgc''" "dbName twinsFresh = ''pgc''"
      "calls freshState = []" "calls twinsFresh = []"
      "db ?new = None" "dbName ?new = ''pgc.v2''"
    by (simp_all add: twinsFresh_def run_defs)
  have p: "clientPromise unreachableDriver = Inl (Error ''connection refused'' Undefined Undefined)"
      "clientPromise memDriver = Inr 0" "clientPromise stuckDriver = Inr 0"
      "client_db stuckDriver 0 ''pgc.v2'' = Inl invalidDatabaseName"
      "client_db memDriver 0 ''pgc'' = Inr (Db 0 ''pgc'')"
    by (simp_all add: unreachableDriver_def stuckDriver_def memDriver_def mem_client_db_def)
  have r1: "createIndex_replies memDriver ?C [''email'', ''name''] (store freshState) =
      ([Inr ''email'', Inr ''name''],
       emptyStore\<lparr>indexesOf := (\<lambda>c. [])(?C := [([(''email'', 1)], True), ([(''name'', 1)], True)])\<rparr>)"
    by (simp add: run_defs)
  have r2: "createIndex_replies memDriver ?C [''email'', ''name''] (store twinsFresh) =
      ([Inl duplicateKey, Inr ''name''],
       store twinsFresh\<lparr>indexesOf := (\<lambda>c. [])(?C := [([(''name'', 1)], True)])\<rparr>)"
    by (simp add: twinsFresh_def run_defs)
  have x: "\<not> indexAlreadyExists duplicateKey"
    by (simp add: run_defs)
  have o: "settle_order [1, 0] (length [''email'', ''name'']) = [1, 0]"
    by (simp add: settle_order_def)
  note inst = initDb_creates_indexes_once
    [where order = "[1, 0]" and ixs = "[''email'', ''name'']" and collName = "''User''"]
  have a1: "initDb memDriver [1, 0] [''email'', ''name''] ''User'' connectedState =
      (Inr (db connectedState), connectedState)"
    using inst [where s = connectedState and drv = memDriver] c(1) by blast
  have a2: "initDb unreachableDriver [1, 0] [''email'', ''name''] ''User'' freshState =
      (Inl (Error ''connection refused'' Undefined Undefined),
       freshState\<lparr>calls := calls freshState @ [AwaitClientPromise]\<rparr>)"
    using inst [where s = freshState and drv = unreachableDriver] c(2) p(1) by blast
  have a3: "initDb stuckDriver [1, 0] [''email'', ''name''] ''User'' ?new =
      (Inl invalidDatabaseName, ?new\<lparr>calls := calls ?new @ [AwaitClientPromise], client := Some 0\<rparr>)"
    using inst [where s = ?new and drv = stuckDriver] c(8) p(3,4) unfolding c(9) by blast
  have a4: "initDb memDriver [1, 0] [''email'', ''name''] ''User'' freshState =
      ((case find fatal (map (\<lambda>i. [Inr ''email'', Inr ''name''] ! i)
               (settle_order [1, 0] (length [''email'', ''name'']))) of
          Some (Inl e) \<Rightarrow> Inl e | _ \<Rightarrow> Inr (Some (Db 0 ''pgc''))),
       freshState\<lparr>client := Some 0, db := Some (Db 0 ''pgc''),
         store := emptyStore\<lparr>indexesOf := (\<lambda>c. [])(?C := [([(''email'', 1)], True), ([(''name'', 1)], True)])\<rparr>,
         calls := calls freshState @ AwaitClientPromise #
           map (\<lambda>f. CreateIndex ?C [(f, 1)] True) [''email'', ''name'']\<rparr>)"
    using inst [where s = freshState and drv = memDriver] c(2) p(2,5) r1 unfolding c(4) by blast
  have a5: "initDb memDriver [1, 0] [''email'', ''name''] ''User'' twinsFresh =
      ((case find fatal (map (\<lambda>i. [Inl duplicateKey, Inr ''name''] ! i)
               (settle_order [1, 0] (length [''email'', ''name'']))) of
          Some (Inl e) \<Rightarrow> Inl e | _ \<Rightarrow> Inr (Some (Db 0 ''pgc''))),
       twinsFresh\<lparr>client := Some 0, db := Some (Db 0 ''pgc''),
         store := store twinsFresh\<lparr>indexesOf := (\<lambda>c. [])(?C := [([(''name'', 1)], True)])\<rparr>,
         calls := calls twinsFresh @ AwaitClientPromise #
           map (\<lambda>f. CreateIndex ?C [(f, 1)] True) [''email'', ''name'']\<rparr>)"
    using inst [where s = twinsFresh and drv = memDriver] c(3) p(2,5) r2 unfolding c(5) by blast
  have ds: "dottedState = ?new\<lparr>calls := calls ?new @ [AwaitClientPromise], client := Some 0\<rparr>"
    by (simp add: dottedState_def stuckDriver_def run_defs)
  from a1 a2 a3 a4 a5 c p x show ?thesis
    unfolding o ds by simp
qed



text \<open>
  The two also part ways, from a state without a handle, when an index request fails
  fatally: with the same \<open>email\<close> stored twice, \<^verbatim>\<open>initDb\<close> still creates the index on
  \<open>name\<close>, while \<^verbatim>\<open>initCollection\<close> stops at \<open>email\<close>. Both rethrow the same error.
\<close>

lemma initCollection_stops_at_failure:
  "db twinsFresh = None \<and>
   fst (initDb memDriver [] [''email'', ''name''] ''User'' twinsFresh) = Inl duplicateKey \<and>
   fst (initCollection memDriver [''email'', ''name''] ''User'' twinsFresh) = Inl duplicateKey \<and>
   indexesOf (store (snd (initDb memDriver [] [''email'', ''name''] ''User'' twinsFresh)))
     (Collection (Db 0 ''pgc'') ''User'') = [([(''name'', 1)], True)] \<and>
   indexesOf (store (snd (initCollection memDriver [''email'', ''name''] ''User'' twinsFresh)))
     (Collection (Db 0 ''pgc'') ''User'') = []"
  by (simp add: twinsFresh_def initCollection_loop.simps [of _ _ _ 0] run_defs)



subsection \<open>Documents\<close>

text \<open>
  Claim C4. \<^verbatim>\<open>documentExists\<close> connects first when no database handle is held, then asks
  the store for one document with \<open>field\<close> equal to \<open>val\<close>. When the store answers that
  query faithfully, the result is true exactly when some document of the collection has
  that value in that field: false on an empty collection, true once \<^verbatim>\<open>addDocument\<close> has
  put such a document there.
\<close>

theorem documentExists_iff:
  assumes "db s = Some d \<or>
           (db s = None \<and> clientPromise drv = Inr c \<and> client_db drv c (dbName s) = Inr d)"
    and "findOne_answers drv docs (Collection d collName) (buildQuery field val) (store s)"
  shows "fst (documentExists drv field val collName s) =
           Inr (\<exists>doc \<in> set (docs (store s) (Collection d collName)). map_of doc field = Some val) \<and>
         db (snd (documentExists drv field val collName s)) = Some d \<and>
         calls (snd (documentExists drv field val collName s)) =
           calls s @ (if db s = None then [AwaitClientPromise] else []) @
           [FindOne (Collection d collName) [(field, val)]]"
  using assms by (rule documentExists_answer)

theorem documentExists_iff_witness:
  "fst (documentExists memDriver ''email'' ''a@x.com'' ''User'' freshState) = Inr False \<and>
   fst (documentExists memDriver ''email'' ''a@x.com'' ''User''
          (snd (addDocument memDriver ''User'' [(''email'', ''a@x.com'')] freshState))) = Inr True"
proof -
  let ?C = "Collection (Db 0 ''pgc'') ''User''"
  let ?s = "snd (addDocument memDriver ''User'' [(''email'', ''a@x.com'')] freshState)"
  have f: "db freshState = None \<and> clientPromise memDriver = Inr 0 \<and>
      client_db memDriver 0 (dbName freshState) = Inr (Db 0 ''pgc'')"
    by (simp add: run_defs)
  have e: "documentsOf (store freshState) ?C = []" "\<not> clientClosed ?C (store freshState)"
    by (simp_all add: run_defs)
  have a: "db ?s = Some (Db 0 ''pgc'')"
    by (simp add: run_defs)
  have d: "documentsOf (store ?s) ?C = [[(''email'', ''a@x.com'')]]" "\<not> clientClosed ?C (store ?s)"
    by (simp_all add: run_defs)
  from documentExists_iff [of freshState "Db 0 ''pgc''" memDriver 0 documentsOf "''User''"
      "''email''" "''a@x.com''", OF disjI2 [OF f] mem_findOne_answers [OF e(2)]] e(1)
    documentExists_iff [of ?s "Db 0 ''pgc''" memDriver 0 documentsOf "''User''"
      "''email''" "''a@x.com''", OF disjI1 [OF a] mem_findOne_answers [OF d(2)]] d(1)
  show ?thesis by simp
qed

text \<open>
  Claim C8. \<^verbatim>\<open>removeAllDocuments\<close> connects first when no database handle is held, then
  asks the store to delete with the empty filter. When the store carries that deletion
  out faithfully, the result reports as many deleted documents as the collection held,
  the collection is empty afterwards, and \<^verbatim>\<open>documentExists\<close> is false for every field and
  value.
\<close>

theorem removeAllDocuments_deletes_all:
  assumes conn: "db s = Some d \<or>
      (db s = None \<and> clientPromise drv = Inr c \<and> client_db drv c (dbName s) = Inr d)"
    and del: "deleteMany_answers drv docs (Collection d collName) [] (store s)"
  shows "\<exists>res. fst (removeAllDocuments drv collName s) = Inr res \<and>
           deletedCount res = length (docs (store s) (Collection d collName)) \<and>
           docs (store (snd (removeAllDocuments drv collName s))) (Collection d collName) = [] \<and>
           calls (snd (removeAllDocuments drv collName s)) =
             calls s @ (if db s = None then [AwaitClientPromise] else []) @
             [DeleteMany (Collection d collName) []] \<and>
           (\<forall>field val.
              findOne_answers drv docs (Collection d collName) (buildQuery field val)
                (store (snd (removeAllDocuments drv collName s))) \<longrightarrow>
              fst (documentExists drv field val collName (snd (removeAllDocuments drv collName s))) =
                Inr False)"
proof -
  from ensure_connection [OF conn] obtain s1 where
    s1: "(if db s = None then connectDb drv s else (Inr (), s)) = (Inr (), s1)"
      "db s1 = Some d" "store s1 = store s"
      "calls s1 = calls s @ (if db s = None then [AwaitClientPromise] else [])"
    by blast
  obtain r st where f: "deleteMany drv (Collection d collName) [] (store s) = (r, st)"
    by (cases "deleteMany drv (Collection d collName) [] (store s)")
  from del f obtain res where r: "r = Inr res"
    and cnt: "deletedCount res = length (docs (store s) (Collection d collName))"
    and gone: "docs st (Collection d collName) = []"
    by (cases r) (auto simp: deleteMany_answers_def matches_empty)
  define s2 where "s2 = s1\<lparr>store := st, calls := calls s1 @ [DeleteMany (Collection d collName) []]\<rparr>"
  have run: "removeAllDocuments drv collName s = (Inr res, s2)"
    unfolding removeAllDocuments_def s1(1) s2_def
    using s1(2,3) f r by (simp add: getCollection_def collection_deleteMany_def)
  have d2: "db s2 = Some d" and st2: "store s2 = st"
    by (simp_all add: s2_def s1(2))
  have after: "fst (documentExists drv field val collName s2) = Inr False"
    if "findOne_answers drv docs (Collection d collName) (buildQuery field val) (store s2)"
    for field val
    using documentExists_answer [of s2 d drv c docs collName field val] that d2 st2 gone by simp
  show ?thesis
    unfolding run using cnt gone after s1(4) by (simp add: s2_def)
qed

theorem removeAllDocuments_deletes_all_witness:
  "db twoUsers = Some (Db 0 ''pgc'') \<and>
   length (documentsOf (store twoUsers) (Collection (Db 0 ''pgc'') ''User'')) = 2 \<and>
   fst (removeAllDocuments memDriver ''User'' twoUsers) = Inr (DeleteResult True 2) \<and>
   fst (documentExists memDriver ''email'' ''a@x.com'' ''User''
          (snd (removeAllDocuments memDriver ''User'' twoUsers))) = Inr False \<and>
   fst (documentExists memDriver ''email'' ''b@x.com'' ''User''
          (snd (removeAllDocuments memDriver ''User'' twoUsers))) = Inr False"
proof -
  let ?C = "Collection (Db 0 ''pgc'') ''User''"
  have a: "db twoUsers = Some (Db 0 ''pgc'')"
    by (simp add: twoUsers_def run_defs)
  have n: "length (documentsOf (store twoUsers) ?C) = 2"
    by (simp add: twoUsers_def run_defs)
  have o: "\<not> clientClosed ?C (store twoUsers)"
      "\<not> clientClosed ?C (store (snd (removeAllDocuments memDriver ''User'' twoUsers)))"
    by (simp_all add: twoUsers_def run_defs)
  have r: "fst (removeAllDocuments memDriver ''User'' twoUsers) = Inr (DeleteResult True 2)"
    by (simp add: twoUsers_def run_defs)
  from removeAllDocuments_deletes_all [of twoUsers "Db 0 ''pgc''" memDriver 0 documentsOf "''User''",
      OF disjI1 [OF a] mem_deleteMany_answers [OF o(1)]] a n r
  show ?thesis by (auto simp: mem_findOne_answers [OF o(2)])
qed

text \<open>
  What \<^verbatim>\<open>addDocument\<close> does after \<^verbatim>\<open>disconnectDb\<close> has closed the client of a connected
  object: it awaits the client promise again, which gives the client that was closed,
  takes the database handle from that client again, and hands the document to the store
  on it. Its result is the store's answer to that insertion.
\<close>

lemma addDocument_reconnects:
  assumes r: "reachable drv name s" and c: "client s = Some c" and h: "db s = Some d"
    and d: "disconnectDb drv s = (Inr u, s1)"
  shows "fst (addDocument drv collName document s1) =
           fst (insertOne drv (Collection d collName) document (store s1)) \<and>
         client (snd (addDocument drv collName document s1)) = Some c \<and>
         db (snd (addDocument drv collName document s1)) = Some d \<and>
         calls (snd (addDocument drv collName document s1)) =
           calls s1 @ [AwaitClientPromise, InsertOne (Collection d collName) document]"
proof -
  note ok = reachable_handles_ok [OF r]
  from ok c h have p: "clientPromise drv = Inr c" and n: "dbName s = name"
    and g: "client_db drv c name = Inr d"
    by (auto simp: handles_ok_def)
  from d c have s1: "db s1 = None" "client s1 = None" "dbName s1 = name"
    using n by (auto simp: disconnectDb_def client_close_def split: prod.splits sum.splits)
  from g s1(3) have g': "client_db drv c (dbName s1) = Inr d" by simp
  have run: "addDocument drv collName document s1 =
      collection_insertOne drv (Collection d collName) document
        (s1\<lparr>calls := calls s1 @ [AwaitClientPromise], client := Some c, db := Some d\<rparr>)"
    by (simp add: addDocument_def connectDb_resolved [OF s1(1) p g'] s1(1) getCollection_def)
  show ?thesis
    unfolding run by (auto simp: collection_insertOne_def split: prod.splits)
qed

text \<open>
  On the store above, where a closed client is closed for good, a request on a closed
  client is refused now and on every later call: the state after the refusal holds the
  same handle on the same closed client.
\<close>

lemma addDocument_on_closed_client:
  assumes "db s = Some d" and "clientClosed (Collection d collName) (store s)"
  shows "addDocument memDriver collName document s =
           (Inl notConnected, s\<lparr>calls := calls s @ [InsertOne (Collection d collName) document]\<rparr>)"
  using assms
  by (simp add: addDocument_def getCollection_def collection_insertOne_def memDriver_def
      mem_insertOne_def)

text \<open>
  Claim C9 fails on the code. The connected object inserts a document. After
  \<^verbatim>\<open>disconnectDb\<close> has closed its client, \<^verbatim>\<open>addDocument\<close> connects again, and holds the
  client and the database handle again; but the client is the one that was closed, the
  promise has no other to give and \<^verbatim>\<open>connectDb\<close> does not open it. The insertion is
  refused, and so is the next one: the object now holds its handles and will not connect
  again.
\<close>

theorem addDocument_after_disconnectDb_fails:
  "reachable memDriver ''pgc'' connectedState \<and>
   fst (addDocument memDriver ''User'' [(''email'', ''a@x.com'')] connectedState) =
     Inr (InsertOneResult True 0) \<and>
   fst (disconnectDb memDriver connectedState) = Inr () \<and>
   client disconnectedState = None \<and> db disconnectedState = None \<and>
   fst (addDocument memDriver ''User'' [(''email'', ''a@x.com'')] disconnectedState) =
     Inl notConnected \<and>
   client (snd (addDocument memDriver ''User'' [(''email'', ''a@x.com'')] disconnectedState)) =
     Some 0 \<and>
   db (snd (addDocument memDriver ''User'' [(''email'', ''a@x.com'')] disconnectedState)) =
     Some (Db 0 ''pgc'') \<and>
   calls (snd (addDocument memDriver ''User'' [(''email'', ''a@x.com'')] disconnectedState)) =
     [AwaitClientPromise, Close 0, AwaitClientPromise,
      InsertOne (Collection (Db 0 ''pgc'') ''User'') [(''email'', ''a@x.com'')]] \<and>
   fst (addDocument memDriver ''User'' [(''email'', ''a@x.com'')]
          (snd (addDocument memDriver ''User'' [(''email'', ''a@x.com'')] disconnectedState))) =
     Inl notConnected"
proof -
  have r: "reachable memDriver ''pgc'' connectedState"
    unfolding connectedState_def freshState_def by (intro r_connectDb r_new)
  then show ?thesis
    by (simp add: disconnectedState_def run_defs)
qed

end
